theory Spec2Isabelle
  imports Complex_Main
begin

section \<open>JavaScript values read by the submission pipeline\<close>

text \<open>
  The file \<^verbatim>\<open>app/(tabs)/index.tsx\<close> holds two versions of the screen. The first
  (heading "Garbage Detection & Classification App") submits through
  \<^verbatim>\<open>classifyImageViaApi\<close>, the second (heading "Road Detection & Classification App")
  through \<^verbatim>\<open>mockModelInference\<close>. Names that occur in both versions carry the suffix
  \<open>2\<close> for the second one.

  A parsed response body is a JSON value. JavaScript numbers are IEEE doubles; the
  pipeline only multiplies and divides them by 100, so the number type is left as the
  parameter \<open>'n\<close> and nothing is assumed about how it rounds. Concrete examples take
  \<open>'n = rat\<close>. Strings are lists of characters.

  \<open>JObj\<close> lists the properties of a parsed object, each name once, as
  \<^verbatim>\<open>JSON.parse\<close> leaves them.
\<close>

datatype 'n json =
    JNull
  | JBool bool
  | JNum 'n
  | JStr string
  | JArr "'n json list"
  | JObj "(string \<times> 'n json) list"

text \<open>
  What a \<^verbatim>\<open>throw\<close> or a rejected promise carries: \<open>Error m\<close> is
  \<^verbatim>\<open>new Error(m)\<close>, \<open>TypeError\<close> is raised by reading a property of
  \<^verbatim>\<open>null\<close>, \<open>SyntaxError\<close> by \<^verbatim>\<open>response.json()\<close> on text that is not JSON, and
  \<open>NetworkFailure\<close> is the rejection of \<^verbatim>\<open>fetch\<close> when no response arrives.
\<close>

datatype js_error = Error string | TypeError | SyntaxError | NetworkFailure

text \<open>
  The property read \<^verbatim>\<open>data.k\<close>. \<open>None\<close> stands for \<^verbatim>\<open>undefined\<close>. Reading from
  \<^verbatim>\<open>null\<close> throws; an object yields its own property; booleans, numbers, strings and
  arrays have none of the four properties the pipeline reads.
\<close>

fun property :: "'n json \<Rightarrow> string \<Rightarrow> js_error + 'n json option" where
  "property JNull k = Inl TypeError"
| "property (JObj kvs) k = Inr (map_of kvs k)"
| "property (JBool b) k = Inr None"
| "property (JNum n) k = Inr None"
| "property (JStr s) k = Inr None"
| "property (JArr xs) k = Inr None"

text \<open>
  \<^verbatim>\<open>a ?? b\<close> with a right operand that is a definite value: \<open>b\<close> when \<open>a\<close> is
  \<^verbatim>\<open>undefined\<close> or \<^verbatim>\<open>null\<close>, otherwise \<open>a\<close>. The operator is associative, so
  \<^verbatim>\<open>a ?? b ?? c\<close> is \<open>nullish_or a (nullish_or b c)\<close>.
\<close>

fun nullish_or :: "'n json option \<Rightarrow> 'n json \<Rightarrow> 'n json" where
  "nullish_or None b = b"
| "nullish_or (Some JNull) b = b"
| "nullish_or (Some v) b = v"

section \<open>Strings: split, pop, toLowerCase\<close>

text \<open>
  \<^verbatim>\<open>s.split(sep)\<close> for a one-character separator: the pieces between the separators,
  never an empty array.
\<close>

fun split_str :: "char \<Rightarrow> string \<Rightarrow> string list" where
  "split_str sep [] = [[]]"
| "split_str sep (c # cs) =
     (if c = sep then [] # split_str sep cs
      else (case split_str sep cs of
              [] \<Rightarrow> [[c]]
            | w # ws \<Rightarrow> (c # w) # ws))"

text \<open>\<^verbatim>\<open>xs.pop()\<close>: the last element, \<^verbatim>\<open>undefined\<close> on an empty array.\<close>

fun pop :: "'a list \<Rightarrow> 'a option" where
  "pop [] = None"
| "pop (x # xs) = (case pop xs of None \<Rightarrow> Some x | Some y \<Rightarrow> Some y)"

text \<open>
  \<^verbatim>\<open>toLowerCase\<close> on the letters \<open>A\<close> to \<open>Z\<close>. No character outside that range
  lowercases to a string of the letters of \<open>png\<close>, \<open>heic\<close> or \<open>webp\<close>, so the comparison
  with these three words is not affected by the characters left unchanged here.
\<close>

definition toLowerCase_char :: "char \<Rightarrow> char" where
  "toLowerCase_char c =
     (case map_of (zip ''ABCDEFGHIJKLMNOPQRSTUVWXYZ'' ''abcdefghijklmnopqrstuvwxyz'') c of
        None \<Rightarrow> c
      | Some l \<Rightarrow> l)"

definition toLowerCase :: "string \<Rightarrow> string" where
  "toLowerCase s = map toLowerCase_char s"

section \<open>Requests and responses\<close>

record form_part =
  part_uri :: string
  part_name :: string
  part_type :: string

record request =
  url :: string
  http_method :: string
  body :: "(string \<times> form_part) list"

text \<open>
  A response as the pipeline sees it: its status, what \<^verbatim>\<open>response.text()\<close> resolves
  to, and what \<^verbatim>\<open>response.json()\<close> settles to (a rejection for a body that is not
  JSON). \<^verbatim>\<open>response.ok\<close> is true for the statuses 200 to 299.
\<close>

record 'n response =
  status :: nat
  body_text :: string
  body_json :: "js_error + 'n json"

definition ok :: "'n response \<Rightarrow> bool" where
  "ok r = (200 \<le> status r \<and> status r \<le> 299)"

datatype 'n fetch_outcome = Rejected js_error | Resolved "'n response"

record 'n prediction =
  label :: "'n json"
  confidence :: 'n

section \<open>The submission pipeline\<close>

definition API_ENDPOINT :: string where
  "API_ENDPOINT = ''http://10.5.32.231:5000/predict''"

text \<open>The local \<^verbatim>\<open>fileName\<close>; the fallback name differs between the two versions.\<close>

definition fileName :: "string \<Rightarrow> string \<Rightarrow> string" where
  "fileName fallback uri =
     (case pop (split_str CHR ''/'' uri) of None \<Rightarrow> fallback | Some f \<Rightarrow> f)"

text \<open>The local \<^verbatim>\<open>extension\<close> (\<^verbatim>\<open>ext\<close> in the second version).\<close>

definition extension :: "string \<Rightarrow> string option" where
  "extension name = map_option toLowerCase (pop (split_str CHR ''.'' name))"

text \<open>The local \<^verbatim>\<open>mimeType\<close>, the same conditional in both versions.\<close>

definition mimeType :: "string \<Rightarrow> string" where
  "mimeType name =
     (if extension name = Some ''png'' then ''image/png''
      else if extension name = Some ''heic'' then ''image/heic''
      else if extension name = Some ''webp'' then ''image/webp''
      else ''image/jpeg'')"

text \<open>
  The local \<^verbatim>\<open>percent\<close>, the same conditional in both versions. The test
  \<^verbatim>\<open>typeof v === 'number'\<close> is the pattern \<open>Some (JNum n)\<close>.
\<close>

definition percent :: "'n::{zero,times,numeral} json \<Rightarrow> js_error + 'n" where
  "percent data =
     (case property data ''confidence_percent'' of
        Inl e \<Rightarrow> Inl e
      | Inr (Some (JNum n)) \<Rightarrow> Inr n
      | Inr _ \<Rightarrow>
          (case property data ''confidence'' of
             Inl e \<Rightarrow> Inl e
           | Inr (Some (JNum c)) \<Rightarrow> Inr (c * 100)
           | Inr _ \<Rightarrow> Inr 0))"

text \<open>
  The request each version sends: one multipart field (\<open>image\<close> in the first version,
  \<open>file\<close> in the second) holding the URI, the file name and the MIME type, posted to
  the fixed endpoint.
\<close>

definition apiRequest :: "string \<Rightarrow> request" where
  "apiRequest uri =
     (let formData = [(''image'',
            \<lparr>part_uri = uri, part_name = fileName ''upload.jpg'' uri,
             part_type = mimeType (fileName ''upload.jpg'' uri)\<rparr>)]
      in \<lparr>url = API_ENDPOINT, http_method = ''POST'', body = formData\<rparr>)"

definition mockRequest :: "string \<Rightarrow> request" where
  "mockRequest imageUri =
     (let formData = [(''file'',
            \<lparr>part_uri = imageUri, part_name = fileName ''image.jpg'' imageUri,
             part_type = mimeType (fileName ''image.jpg'' imageUri)\<rparr>)]
      in \<lparr>url = ''http://10.5.32.231:5000/predict'', http_method = ''POST'', body = formData\<rparr>)"

text \<open>
  \<^verbatim>\<open>classifyImageViaApi\<close>, with \<^verbatim>\<open>fetch\<close> as a parameter: what the network
  answers to the one request the function sends. The test
  \<^verbatim>\<open>typeof data.label === 'string'\<close> is the pattern \<open>Some (JStr s)\<close>.
\<close>

definition classifyImageViaApi ::
  "(request \<Rightarrow> 'n fetch_outcome) \<Rightarrow> string
     \<Rightarrow> js_error + ('n::{zero,times,inverse,numeral}) prediction"
where
  "classifyImageViaApi fetch uri =
     (case fetch (apiRequest uri) of
           Rejected e \<Rightarrow> Inl e
         | Resolved response \<Rightarrow>
             if \<not> ok response then
               Inl (Error (if body_text response = [] then ''Unable to classify image.''
                           else body_text response))
             else
               (case body_json response of
                  Inl e \<Rightarrow> Inl e
                | Inr data \<Rightarrow>
                    (case percent data of
                       Inl e \<Rightarrow> Inl e
                     | Inr p \<Rightarrow>
                         (case property data ''label'' of
                            Inl e \<Rightarrow> Inl e
                          | Inr (Some (JStr s)) \<Rightarrow>
                              Inr \<lparr>label = JStr s, confidence = p / 100\<rparr>
                          | Inr _ \<Rightarrow>
                              Inr \<lparr>label = JStr ''Unknown'', confidence = p / 100\<rparr>))))"

text \<open>
  \<^verbatim>\<open>mockModelInference\<close>: the \<^verbatim>\<open>catch\<close> logs the error and throws it again, so
  every error leaves the function unchanged. The label is
  \<^verbatim>\<open>data.predicted_class ?? data.label ?? 'Unknown'\<close>, with no test of its type. The
  source reads \<^verbatim>\<open>data.label\<close> only when \<^verbatim>\<open>data.predicted_class\<close> is nullish; the
  read has no effect and cannot throw once the reads before it succeeded, so it is made
  in any case here.
\<close>

definition mockModelInference ::
  "(request \<Rightarrow> 'n fetch_outcome) \<Rightarrow> string
     \<Rightarrow> js_error + ('n::{zero,times,numeral}) prediction"
where
  "mockModelInference fetch imageUri =
     (case fetch (mockRequest imageUri) of
           Rejected e \<Rightarrow> Inl e
         | Resolved response \<Rightarrow>
             if \<not> ok response then
               Inl (Error (if body_text response = [] then ''Failed to classify image.''
                           else body_text response))
             else
               (case body_json response of
                  Inl e \<Rightarrow> Inl e
                | Inr data \<Rightarrow>
                    (case percent data of
                       Inl e \<Rightarrow> Inl e
                     | Inr p \<Rightarrow>
                         (case property data ''predicted_class'' of
                            Inl e \<Rightarrow> Inl e
                          | Inr pc \<Rightarrow>
                              (case property data ''label'' of
                                 Inl e \<Rightarrow> Inl e
                               | Inr l \<Rightarrow>
                                   Inr \<lparr>label = nullish_or pc (nullish_or l (JStr ''Unknown'')),
                                        confidence = p\<rparr>)))))"

section \<open>The first screen: state and handlers\<close>

text \<open>
  The state variables of the first \<^verbatim>\<open>HomeScreen\<close>, as its \<^verbatim>\<open>useState\<close> calls
  declare them. \<^verbatim>\<open>Alert.alert\<close> opens a dialog and changes none of them, so the
  alerts are left out of the state.
\<close>

record 'n screen =
  imageUri :: "string option"
  prediction :: "'n prediction option"
  isClassifying :: bool
  cameraVisible :: bool
  resultModalVisible :: bool

definition initial :: "'n screen" where
  "initial = \<lparr>imageUri = None, prediction = None, isClassifying = False,
              cameraVisible = False, resultModalVisible = False\<rparr>"

text \<open>
  \<^verbatim>\<open>Boolean(imageUri)\<close>, the negation of \<^verbatim>\<open>!imageUri\<close>: \<^verbatim>\<open>null\<close> and the empty
  string are falsy.
\<close>

definition truthy :: "string option \<Rightarrow> bool" where
  "truthy u = (case u of None \<Rightarrow> False | Some s \<Rightarrow> s \<noteq> [])"

definition hasImage :: "'n screen \<Rightarrow> bool" where
  "hasImage s = truthy (imageUri s)"

text \<open>
  \<^verbatim>\<open>handleOpenCamera\<close> after \<^verbatim>\<open>ensureCameraPermission\<close> has answered \<open>granted\<close>.
\<close>

definition handleOpenCamera :: "bool \<Rightarrow> 'n screen \<Rightarrow> 'n screen" where
  "handleOpenCamera granted s = (if \<not> granted then s else s\<lparr>cameraVisible := True\<rparr>)"

text \<open>
  \<^verbatim>\<open>handleCapturePhoto\<close> and \<^verbatim>\<open>handlePickImage\<close>: the argument is the URI of the
  photo taken or picked, \<open>None\<close> when there is no camera, the capture fails, the permission
  is refused or the picker is cancelled; the state is then unchanged.
\<close>

definition handleCapturePhoto :: "string option \<Rightarrow> 'n screen \<Rightarrow> 'n screen" where
  "handleCapturePhoto photo s =
     (case photo of
        None \<Rightarrow> s
      | Some uri \<Rightarrow> s\<lparr>imageUri := Some uri, prediction := None,
                       resultModalVisible := False, cameraVisible := False\<rparr>)"

definition handlePickImage :: "string option \<Rightarrow> 'n screen \<Rightarrow> 'n screen" where
  "handlePickImage picked s =
     (case picked of
        None \<Rightarrow> s
      | Some uri \<Rightarrow> s\<lparr>imageUri := Some uri, prediction := None, resultModalVisible := False\<rparr>)"

text \<open>
  \<^verbatim>\<open>handleClassify\<close> is an async function with one \<^verbatim>\<open>await\<close>. It is modelled in
  two halves. \<open>handleClassify_begin\<close> runs up to the \<^verbatim>\<open>await\<close>: it returns early when
  there is no image, otherwise it sets the flag and hands the URI to the pipeline.
  \<open>handleClassify_settle\<close> runs from the \<^verbatim>\<open>await\<close> on, given what the pipeline
  returned or threw: the \<^verbatim>\<open>try\<close> branch stores the prediction and opens the result
  modal, the \<^verbatim>\<open>catch\<close> branch only alerts, and \<^verbatim>\<open>finally\<close> clears the flag in both.
  \<open>handleClassify\<close> is the whole call, with nothing happening in between.
\<close>

definition handleClassify_begin :: "'n screen \<Rightarrow> 'n screen \<times> string option" where
  "handleClassify_begin s =
     (if \<not> truthy (imageUri s) then (s, None)
      else (s\<lparr>isClassifying := True\<rparr>, imageUri s))"

definition handleClassify_settle ::
  "js_error + 'n prediction \<Rightarrow> 'n screen \<Rightarrow> 'n screen" where
  "handleClassify_settle result s =
     (case result of
        Inr p \<Rightarrow> s\<lparr>prediction := Some p, resultModalVisible := True, isClassifying := False\<rparr>
      | Inl e \<Rightarrow> s\<lparr>isClassifying := False\<rparr>)"

definition handleClassify ::
  "(request \<Rightarrow> 'n fetch_outcome) \<Rightarrow> ('n::{zero,times,inverse,numeral}) screen \<Rightarrow> 'n screen"
where
  "handleClassify fetch s =
     (case handleClassify_begin s of
        (s', None) \<Rightarrow> s'
      | (s', Some uri) \<Rightarrow> handleClassify_settle (classifyImageViaApi fetch uri) s')"

text \<open>The \<^verbatim>\<open>disabled\<close> prop of the Classify button.\<close>

definition classifyDisabled :: "'n screen \<Rightarrow> bool" where
  "classifyDisabled s = (\<not> hasImage s \<or> isClassifying s)"

subsection \<open>The screen as a machine driven by events\<close>

text \<open>
  What can happen to the screen: the user's presses, the camera's and the picker's
  answers, and the network's answer to a request that is under way. Events are handled
  one at a time, each against the state the screen was last rendered from, so the
  Classify button is disabled exactly when \<open>classifyDisabled\<close> holds of the current state,
  and a disabled button does not call its \<^verbatim>\<open>onPress\<close>.

  Beside the screen the machine keeps \<open>pending\<close>: the URIs of the calls of
  \<^verbatim>\<open>classifyImageViaApi\<close> that have begun and not settled yet. It is no state variable of
  the component; it records the promises the event loop holds. \<open>Settle\<close> is the network
  answering the oldest of them.
\<close>

datatype 'n event =
    OpenCamera bool
  | CancelCamera
  | CapturePhoto "string option"
  | PickImage "string option"
  | PressClassify
  | Settle "'n fetch_outcome"
  | CloseResult

fun dispatch ::
  "('n::{zero,times,inverse,numeral}) event \<Rightarrow> 'n screen \<times> string list
     \<Rightarrow> 'n screen \<times> string list" where
  "dispatch (OpenCamera granted) (s, pending) = (handleOpenCamera granted s, pending)"
| "dispatch CancelCamera (s, pending) = (s\<lparr>cameraVisible := False\<rparr>, pending)"
| "dispatch (CapturePhoto photo) (s, pending) = (handleCapturePhoto photo s, pending)"
| "dispatch (PickImage picked) (s, pending) = (handlePickImage picked s, pending)"
| "dispatch PressClassify (s, pending) =
     (if classifyDisabled s then (s, pending)
      else (case handleClassify_begin s of
              (s', None) \<Rightarrow> (s', pending)
            | (s', Some uri) \<Rightarrow> (s', pending @ [uri])))"
| "dispatch (Settle outcome) (s, pending) =
     (case pending of
        [] \<Rightarrow> (s, pending)
      | uri # rest \<Rightarrow>
          (handleClassify_settle (classifyImageViaApi (\<lambda>_. outcome) uri) s, rest))"
| "dispatch CloseResult (s, pending) = (s\<lparr>resultModalVisible := False\<rparr>, pending)"

definition run ::
  "('n::{zero,times,inverse,numeral}) event list \<Rightarrow> 'n screen \<times> string list" where
  "run es = foldl (\<lambda>c e. dispatch e c) (initial, []) es"

definition is_Settle :: "'n event \<Rightarrow> bool" where
  "is_Settle e = (case e of Settle outcome \<Rightarrow> True | _ \<Rightarrow> False)"

text \<open>The screen's flag and the requests under way agree: one request when set, none when clear.\<close>

definition in_flight_inv :: "'n screen \<times> string list \<Rightarrow> bool" where
  "in_flight_inv c = (length (snd c) = (if isClassifying (fst c) then 1 else 0))"

section \<open>The second screen: \<^verbatim>\<open>handleClassify\<close>\<close>

text \<open>
  The state variables of the second \<^verbatim>\<open>HomeScreen\<close> that its \<^verbatim>\<open>handleClassify\<close> and
  the Classify button read or write (\<^verbatim>\<open>cameraFacing\<close> and \<^verbatim>\<open>imageMeta\<close> are neither).
  This version has no \<^verbatim>\<open>catch\<close>: an error of the pipeline leaves
  \<^verbatim>\<open>handleClassify\<close> as a rejection, after \<^verbatim>\<open>finally\<close> has cleared the flag. The
  first component of the result is that rejection.
\<close>

record 'n screen2 =
  selectedImageUri :: "string option"
  prediction2 :: "'n prediction option"
  isClassifying2 :: bool
  isCameraVisible :: bool

definition handleClassify2_begin :: "'n screen2 \<Rightarrow> 'n screen2 \<times> string option" where
  "handleClassify2_begin s =
     (if \<not> truthy (selectedImageUri s) then (s, None)
      else (s\<lparr>isClassifying2 := True, prediction2 := None\<rparr>, selectedImageUri s))"

definition handleClassify2_settle ::
  "js_error + 'n prediction \<Rightarrow> 'n screen2 \<Rightarrow> js_error option \<times> 'n screen2" where
  "handleClassify2_settle result s =
     (case result of
        Inr p \<Rightarrow> (None, s\<lparr>prediction2 := Some p, isClassifying2 := False\<rparr>)
      | Inl e \<Rightarrow> (Some e, s\<lparr>isClassifying2 := False\<rparr>))"

definition handleClassify2 ::
  "(request \<Rightarrow> 'n fetch_outcome) \<Rightarrow> ('n::{zero,times,numeral}) screen2
     \<Rightarrow> js_error option \<times> 'n screen2" where
  "handleClassify2 fetch s =
     (case handleClassify2_begin s of
        (s', None) \<Rightarrow> (None, s')
      | (s', Some uri) \<Rightarrow> handleClassify2_settle (mockModelInference fetch uri) s')"

section \<open>The claims' own words, and example inputs\<close>

text \<open>
  The member named \<open>k\<close> of a JSON object; a value that is no object has no members.
\<close>

fun json_field :: "'n json \<Rightarrow> string \<Rightarrow> 'n json option" where
  "json_field (JObj kvs) k = map_of kvs k"
| "json_field v k = None"

text \<open>
  The percentage as the specification words it: the \<open>confidence_percent\<close> member when it
  is a number, otherwise the \<open>confidence\<close> member times 100 when that is a number,
  otherwise 0.
\<close>

definition spec_percent :: "'n::{zero,times,numeral} json \<Rightarrow> 'n" where
  "spec_percent data =
     (case json_field data ''confidence_percent'' of
        Some (JNum n) \<Rightarrow> n
      | _ \<Rightarrow> (case json_field data ''confidence'' of
                Some (JNum c) \<Rightarrow> c * 100
              | _ \<Rightarrow> 0))"

text \<open>
  Responses used to run the definitions on concrete inputs; \<open>body_text\<close> is only read
  for a status outside 200 to 299. The numbers are chosen so that, apart from the
  specification's own 42.5, the arithmetic on them is exact in binary floating point too.
\<close>

definition dog_response :: "rat response" where
  "dog_response =
     \<lparr>status = 200, body_text = ''(json)'',
      body_json = Inr (JObj [(''label'', JStr ''Dog''), (''confidence'', JNum 0.5)])\<rparr>"

definition unavailable_response :: "rat response" where
  "unavailable_response =
     \<lparr>status = 503, body_text = ''model unavailable'', body_json = Inl SyntaxError\<rparr>"

definition empty_error_response :: "rat response" where
  "empty_error_response = \<lparr>status = 500, body_text = [], body_json = Inl SyntaxError\<rparr>"

definition cat_body :: "rat json" where
  "cat_body = JObj [(''predicted_class'', JStr ''Cat''), (''confidence_percent'', JNum 42.5)]"

definition cat_response :: "rat response" where
  "cat_response = \<lparr>status = 200, body_text = ''(json)'', body_json = Inr cat_body\<rparr>"

definition numeric_class_response :: "rat response" where
  "numeric_class_response =
     \<lparr>status = 200, body_text = ''(json)'',
      body_json = Inr (JObj [(''predicted_class'', JNum 5)])\<rparr>"

definition null_response :: "rat response" where
  "null_response = \<lparr>status = 200, body_text = ''null'', body_json = Inr JNull\<rparr>"

definition empty_object_response :: "rat response" where
  "empty_object_response = \<lparr>status = 200, body_text = ''{}'', body_json = Inr (JObj [])\<rparr>"

definition both_fields_response :: "rat response" where
  "both_fields_response =
     \<lparr>status = 201, body_text = ''(json)'',
      body_json = Inr (JObj [(''confidence'', JNum 0.25), (''confidence_percent'', JNum 75)])\<rparr>"

definition text_percent_response :: "rat response" where
  "text_percent_response =
     \<lparr>status = 200, body_text = ''(json)'',
      body_json =
        Inr (JObj [(''confidence_percent'', JStr ''75''), (''confidence'', JNum 0.25)])\<rparr>"

definition other_fields_response :: "rat response" where
  "other_fields_response =
     \<lparr>status = 200, body_text = ''(json)'',
      body_json = Inr (JObj [(''category'', JStr ''Dog''), (''score'', JNum 0.5)])\<rparr>"

definition dog_screen :: "rat screen" where
  "dog_screen = initial\<lparr>imageUri := Some ''file:///tmp/dog.png''\<rparr>"

definition dog_screen2 :: "rat screen2" where
  "dog_screen2 =
     \<lparr>selectedImageUri = Some ''file:///tmp/dog.png'', prediction2 = None,
      isClassifying2 = False, isCameraVisible = False\<rparr>"

section \<open>Properties of the submission pipeline\<close>

subsection \<open>What both versions do with a 2xx response\<close>

text \<open>
  Reading a member of a parsed body that is not \<^verbatim>\<open>null\<close> never throws, and the local
  \<open>percent\<close> is then the percentage in the specification's words.
\<close>

lemma property_field: "data \<noteq> JNull \<Longrightarrow> property data k = Inr (json_field data k)"
  by (cases data) auto

lemma percent_not_null: "data \<noteq> JNull \<Longrightarrow> percent data = Inr (spec_percent data)"
  by (simp add: percent_def spec_percent_def property_field split: option.splits json.splits)

lemma classifyImageViaApi_ok:
  assumes "fetch (apiRequest uri) = Resolved r" and "ok r" and "body_json r = Inr data"
    and "data \<noteq> JNull"
  shows "classifyImageViaApi fetch uri =
           Inr \<lparr>label = (case json_field data ''label'' of
                           Some (JStr s) \<Rightarrow> JStr s
                         | _ \<Rightarrow> JStr ''Unknown''),
                confidence = spec_percent data / 100\<rparr>"
  using assms
  by (simp add: classifyImageViaApi_def percent_not_null property_field
      split: option.splits json.splits)

lemma mockModelInference_ok:
  assumes "fetch (mockRequest uri) = Resolved r" and "ok r" and "body_json r = Inr data"
    and "data \<noteq> JNull"
  shows "mockModelInference fetch uri =
           Inr \<lparr>label = nullish_or (json_field data ''predicted_class'')
                           (nullish_or (json_field data ''label'') (JStr ''Unknown'')),
                confidence = spec_percent data\<rparr>"
  using assms
  by (simp add: mockModelInference_def percent_not_null property_field)

lemma pipeline_null_body:
  assumes "ok r" and "body_json r = Inr JNull"
  shows "fetch (apiRequest uri) = Resolved r \<Longrightarrow> classifyImageViaApi fetch uri = Inl TypeError"
    and "fetch (mockRequest uri) = Resolved r \<Longrightarrow> mockModelInference fetch uri = Inl TypeError"
  using assms by (simp_all add: classifyImageViaApi_def mockModelInference_def percent_def)

subsection \<open>Success and failure\<close>

text \<open>
  Claim C1. In both versions a prediction is returned only when \<^verbatim>\<open>fetch\<close> resolved
  with a response whose status is 2xx. When \<^verbatim>\<open>fetch\<close> rejects, the pipeline fails with
  that rejection; when the response is not 2xx it fails with an error. No prediction,
  partial or whole, comes out of either case.
\<close>

theorem prediction_only_from_2xx:
  fixes fetch :: "request \<Rightarrow> ('n::{zero,times,inverse,numeral}) fetch_outcome"
  shows "(\<forall>p. classifyImageViaApi fetch uri = Inr p \<longrightarrow>
            (\<exists>r. fetch (apiRequest uri) = Resolved r \<and> ok r))
       \<and> (\<forall>p. mockModelInference fetch uri = Inr p \<longrightarrow>
            (\<exists>r. fetch (mockRequest uri) = Resolved r \<and> ok r))
       \<and> (\<forall>e. fetch (apiRequest uri) = Rejected e \<longrightarrow> classifyImageViaApi fetch uri = Inl e)
       \<and> (\<forall>e. fetch (mockRequest uri) = Rejected e \<longrightarrow> mockModelInference fetch uri = Inl e)
       \<and> (\<forall>r. fetch (apiRequest uri) = Resolved r \<and> \<not> ok r \<longrightarrow>
            (\<exists>e. classifyImageViaApi fetch uri = Inl e))
       \<and> (\<forall>r. fetch (mockRequest uri) = Resolved r \<and> \<not> ok r \<longrightarrow>
            (\<exists>e. mockModelInference fetch uri = Inl e))"
proof -
  have a: "\<exists>r. fetch (apiRequest uri) = Resolved r \<and> ok r"
    if "classifyImageViaApi fetch uri = Inr p" for p
    using that unfolding classifyImageViaApi_def
    by (cases "fetch (apiRequest uri)") (auto split: if_splits)
  have m: "\<exists>r. fetch (mockRequest uri) = Resolved r \<and> ok r"
    if "mockModelInference fetch uri = Inr p" for p
    using that unfolding mockModelInference_def
    by (cases "fetch (mockRequest uri)") (auto split: if_splits)
  have ra: "classifyImageViaApi fetch uri = Inl e" if "fetch (apiRequest uri) = Rejected e" for e
    using that by (simp add: classifyImageViaApi_def)
  have rm: "mockModelInference fetch uri = Inl e" if "fetch (mockRequest uri) = Rejected e" for e
    using that by (simp add: mockModelInference_def)
  have na: "\<exists>e. classifyImageViaApi fetch uri = Inl e"
    if "fetch (apiRequest uri) = Resolved r" "\<not> ok r" for r
    using that by (simp add: classifyImageViaApi_def)
  have nm: "\<exists>e. mockModelInference fetch uri = Inl e"
    if "fetch (mockRequest uri) = Resolved r" "\<not> ok r" for r
    using that by (simp add: mockModelInference_def)
  from a m ra rm na nm show ?thesis by blast
qed

theorem prediction_only_from_2xx_witness:
  "classifyImageViaApi (\<lambda>_. Resolved dog_response) ''file:///tmp/dog.png''
     = Inr \<lparr>label = JStr ''Dog'', confidence = 0.5\<rparr>
   \<and> ok dog_response
   \<and> mockModelInference (\<lambda>_. Resolved dog_response) ''file:///tmp/dog.png''
     = Inr \<lparr>label = JStr ''Dog'', confidence = 50\<rparr>
   \<and> \<not> ok unavailable_response
   \<and> classifyImageViaApi (\<lambda>_. Resolved unavailable_response) ''file:///tmp/dog.png''
     = Inl (Error ''model unavailable'')
   \<and> mockModelInference (\<lambda>_. Resolved unavailable_response) ''file:///tmp/dog.png''
     = Inl (Error ''model unavailable'')
   \<and> classifyImageViaApi (\<lambda>_. Rejected NetworkFailure :: rat fetch_outcome)
        ''file:///tmp/dog.png'' = Inl NetworkFailure
   \<and> mockModelInference (\<lambda>_. Rejected NetworkFailure :: rat fetch_outcome)
        ''file:///tmp/dog.png'' = Inl NetworkFailure"
  using prediction_only_from_2xx [of "\<lambda>_. Resolved dog_response" "''file:///tmp/dog.png''"]
    prediction_only_from_2xx [of "\<lambda>_. Resolved unavailable_response" "''file:///tmp/dog.png''"]
    prediction_only_from_2xx
      [of "\<lambda>_. Rejected NetworkFailure :: rat fetch_outcome" "''file:///tmp/dog.png''"]
  by (simp add: classifyImageViaApi_def mockModelInference_def dog_response_def
      unavailable_response_def ok_def percent_def)

subsection \<open>Confidence\<close>

text \<open>
  Claim C2, as stated, at the body \<^verbatim>\<open>null\<close>: it is valid JSON with neither member, so
  the claim gives the percentage 0, but reading \<^verbatim>\<open>data.confidence_percent\<close> throws
  and both versions fail with a \<open>TypeError\<close>.
\<close>

theorem confidence_extraction_counterexample:
  "ok null_response \<and> body_json null_response = Inr JNull
   \<and> json_field (JNull :: rat json) ''confidence_percent'' = None
   \<and> json_field (JNull :: rat json) ''confidence'' = None
   \<and> percent (JNull :: rat json) = Inl TypeError
   \<and> classifyImageViaApi (\<lambda>_. Resolved null_response) ''file:///tmp/dog.png'' = Inl TypeError
   \<and> mockModelInference (\<lambda>_. Resolved null_response) ''file:///tmp/dog.png'' = Inl TypeError"
  by (simp add: classifyImageViaApi_def mockModelInference_def percent_def null_response_def ok_def)

text \<open>
  Claim C2, amended: for every 2xx response whose parsed body is not \<^verbatim>\<open>null\<close>, both
  versions return a prediction built from the percentage in the specification's words
  (the \<open>confidence_percent\<close> member when it is a number, otherwise the \<open>confidence\<close>
  member times 100 when that is a number, otherwise 0): \<^verbatim>\<open>classifyImageViaApi\<close>
  returns it divided by 100, \<^verbatim>\<open>mockModelInference\<close> returns it as it is.
\<close>

theorem confidence_extraction:
  fixes fetch :: "request \<Rightarrow> ('n::{zero,times,inverse,numeral}) fetch_outcome"
  assumes "ok r" and "body_json r = Inr data" and "data \<noteq> JNull"
  shows "(fetch (apiRequest uri) = Resolved r \<longrightarrow>
            (\<exists>l. classifyImageViaApi fetch uri =
                    Inr \<lparr>label = l, confidence = spec_percent data / 100\<rparr>))
       \<and> (fetch (mockRequest uri) = Resolved r \<longrightarrow>
            (\<exists>l. mockModelInference fetch uri =
                    Inr \<lparr>label = l, confidence = spec_percent data\<rparr>))"
  using assms by (simp add: classifyImageViaApi_ok mockModelInference_ok)

theorem confidence_extraction_witness:
  "ok both_fields_response \<and> ok text_percent_response \<and> ok empty_object_response
   \<and> classifyImageViaApi (\<lambda>_. Resolved both_fields_response) ''file:///tmp/dog.png''
       = Inr \<lparr>label = JStr ''Unknown'', confidence = 0.75\<rparr>
   \<and> mockModelInference (\<lambda>_. Resolved both_fields_response) ''file:///tmp/dog.png''
       = Inr \<lparr>label = JStr ''Unknown'', confidence = 75\<rparr>
   \<and> classifyImageViaApi (\<lambda>_. Resolved text_percent_response) ''file:///tmp/dog.png''
       = Inr \<lparr>label = JStr ''Unknown'', confidence = 0.25\<rparr>
   \<and> mockModelInference (\<lambda>_. Resolved text_percent_response) ''file:///tmp/dog.png''
       = Inr \<lparr>label = JStr ''Unknown'', confidence = 25\<rparr>
   \<and> classifyImageViaApi (\<lambda>_. Resolved empty_object_response) ''file:///tmp/dog.png''
       = Inr \<lparr>label = JStr ''Unknown'', confidence = 0\<rparr>
   \<and> mockModelInference (\<lambda>_. Resolved empty_object_response) ''file:///tmp/dog.png''
       = Inr \<lparr>label = JStr ''Unknown'', confidence = 0\<rparr>"
proof -
  have b: "ok both_fields_response"
    "body_json both_fields_response
       = Inr (JObj [(''confidence'', JNum 0.25), (''confidence_percent'', JNum 75)])"
    by (simp_all add: both_fields_response_def ok_def)
  have t: "ok text_percent_response"
    "body_json text_percent_response
       = Inr (JObj [(''confidence_percent'', JStr ''75''), (''confidence'', JNum 0.25)])"
    by (simp_all add: text_percent_response_def ok_def)
  have e: "ok empty_object_response" "body_json empty_object_response = Inr (JObj [])"
    by (simp_all add: empty_object_response_def ok_def)
  show ?thesis
    using b(1) t(1) e(1)
      confidence_extraction [OF b, of "\<lambda>_. Resolved both_fields_response" "''file:///tmp/dog.png''"]
      confidence_extraction [OF t, of "\<lambda>_. Resolved text_percent_response" "''file:///tmp/dog.png''"]
      confidence_extraction [OF e, of "\<lambda>_. Resolved empty_object_response" "''file:///tmp/dog.png''"]
    by (simp add: spec_percent_def classifyImageViaApi_def mockModelInference_def percent_def
          both_fields_response_def text_percent_response_def empty_object_response_def)
qed

text \<open>
  Claim C8. For every 2xx response whose body has a numeric \<open>confidence_percent\<close> or
  \<open>confidence\<close> member, both versions return a prediction, and the confidence of
  \<^verbatim>\<open>classifyImageViaApi\<close> is the confidence of \<^verbatim>\<open>mockModelInference\<close> divided by
  100. This holds for any arithmetic on the numbers, rounding included, since both start
  from the same percentage.
\<close>

theorem confidence_conventions:
  fixes fetch :: "request \<Rightarrow> ('n::{zero,times,inverse,numeral}) fetch_outcome"
  assumes "ok r" and "body_json r = Inr data"
    and "(\<exists>n. json_field data ''confidence_percent'' = Some (JNum n))
         \<or> (\<exists>c. json_field data ''confidence'' = Some (JNum c))"
    and "fetch (apiRequest uri) = Resolved r" and "fetch (mockRequest uri) = Resolved r"
  shows "\<exists>pa pm. classifyImageViaApi fetch uri = Inr pa
            \<and> mockModelInference fetch uri = Inr pm
            \<and> confidence pa = confidence pm / 100"
proof -
  from assms(3) have "data \<noteq> JNull" by auto
  with assms show ?thesis
    by (simp add: classifyImageViaApi_ok mockModelInference_ok)
qed

theorem confidence_conventions_witness:
  "ok dog_response
   \<and> classifyImageViaApi (\<lambda>_. Resolved dog_response) ''file:///tmp/dog.png''
       = Inr \<lparr>label = JStr ''Dog'', confidence = 0.5\<rparr>
   \<and> mockModelInference (\<lambda>_. Resolved dog_response) ''file:///tmp/dog.png''
       = Inr \<lparr>label = JStr ''Dog'', confidence = 50\<rparr>
   \<and> (0.5 :: rat) = 50 / 100"
proof -
  let ?d = "JObj [(''label'', JStr ''Dog''), (''confidence'', JNum (0.5::rat))]"
  have h: "ok dog_response" "body_json dog_response = Inr ?d"
    by (simp_all add: dog_response_def ok_def)
  have "json_field ?d ''confidence'' = Some (JNum 0.5)" by simp
  then have n: "(\<exists>n. json_field ?d ''confidence_percent'' = Some (JNum n))
       \<or> (\<exists>c. json_field ?d ''confidence'' = Some (JNum c))"
    by blast
  show ?thesis
    using h(1) confidence_conventions [OF h n, of "\<lambda>_. Resolved dog_response" "''file:///tmp/dog.png''"]
    by (simp add: classifyImageViaApi_def mockModelInference_def percent_def dog_response_def)
qed

subsection \<open>Error messages\<close>

text \<open>
  Claim C3, as stated, at a status 500 response with an empty body:
  \<^verbatim>\<open>mockModelInference\<close> fails with the message \<open>Failed to classify image.\<close>, not
  with \<open>Unable to classify image.\<close>
\<close>

theorem fallback_message_counterexample:
  "\<not> ok empty_error_response \<and> body_text empty_error_response = []
   \<and> mockModelInference (\<lambda>_. Resolved empty_error_response) ''file:///tmp/dog.png''
       = Inl (Error ''Failed to classify image.'')
   \<and> ''Failed to classify image.'' \<noteq> ''Unable to classify image.''"
  by (simp add: mockModelInference_def empty_error_response_def ok_def)

text \<open>
  Claim C3, amended: for every response that is not 2xx, both versions fail with an
  \<open>Error\<close> whose message is the body text when that is not empty; when it is empty the
  message is \<open>Unable to classify image.\<close> in \<^verbatim>\<open>classifyImageViaApi\<close> and
  \<open>Failed to classify image.\<close> in \<^verbatim>\<open>mockModelInference\<close>.
\<close>

theorem non_2xx_error_message:
  fixes fetch :: "request \<Rightarrow> ('n::{zero,times,inverse,numeral}) fetch_outcome"
  shows "(fetch (apiRequest uri) = Resolved r \<and> \<not> ok r \<longrightarrow>
            classifyImageViaApi fetch uri =
              Inl (Error (if body_text r = [] then ''Unable to classify image.'' else body_text r)))
       \<and> (fetch (mockRequest uri) = Resolved r \<and> \<not> ok r \<longrightarrow>
            mockModelInference fetch uri =
              Inl (Error (if body_text r = [] then ''Failed to classify image.'' else body_text r)))"
  by (simp add: classifyImageViaApi_def mockModelInference_def)

theorem non_2xx_error_message_witness:
  "\<not> ok unavailable_response \<and> \<not> ok empty_error_response
   \<and> classifyImageViaApi (\<lambda>_. Resolved unavailable_response) ''file:///tmp/dog.png''
       = Inl (Error ''model unavailable'')
   \<and> mockModelInference (\<lambda>_. Resolved unavailable_response) ''file:///tmp/dog.png''
       = Inl (Error ''model unavailable'')
   \<and> classifyImageViaApi (\<lambda>_. Resolved empty_error_response) ''file:///tmp/dog.png''
       = Inl (Error ''Unable to classify image.'')
   \<and> mockModelInference (\<lambda>_. Resolved empty_error_response) ''file:///tmp/dog.png''
       = Inl (Error ''Failed to classify image.'')"
  using non_2xx_error_message [of "\<lambda>_. Resolved unavailable_response" "''file:///tmp/dog.png''" unavailable_response]
   non_2xx_error_message [of "\<lambda>_. Resolved empty_error_response" "''file:///tmp/dog.png''" empty_error_response]
  by (simp add: unavailable_response_def empty_error_response_def ok_def)

subsection \<open>MIME type\<close>

lemma pop_snoc: "pop (xs @ [x]) = Some x"
  by (induction xs) auto

lemma split_str_no_sep: "sep \<notin> set s \<Longrightarrow> split_str sep s = [s]"
  by (induction s) auto

lemma split_str_last_piece:
  "sep \<notin> set e \<Longrightarrow> \<exists>ys. ys \<noteq> [] \<and> split_str sep (pre @ sep # e) = ys @ [e]"
proof (induction pre)
  case Nil
  then have "split_str sep ([] @ sep # e) = [[]] @ [e]"
    by (simp add: split_str_no_sep)
  then show ?case by blast
next
  case (Cons c pre)
  then obtain ys where ys: "ys \<noteq> []" "split_str sep (pre @ sep # e) = ys @ [e]"
    by blast
  show ?case
  proof (cases "c = sep")
    case True
    with ys have "split_str sep ((c # pre) @ sep # e) = ([] # ys) @ [e]" by simp
    then show ?thesis by blast
  next
    case False
    from ys(1) obtain y ys' where "ys = y # ys'" by (cases ys) auto
    with ys False have "split_str sep ((c # pre) @ sep # e) = ((c # y) # ys') @ [e]" by simp
    then show ?thesis by blast
  qed
qed

lemma extension_after_last_dot:
  assumes "name = pre @ CHR ''.'' # e \<or> name = e" and "CHR ''.'' \<notin> set e"
  shows "extension name = Some (toLowerCase e)"
proof -
  from assms have "pop (split_str CHR ''.'' name) = Some e"
  proof (elim disjE)
    assume n: "name = pre @ CHR ''.'' # e"
    from split_str_last_piece [OF assms(2), of pre]
    obtain ys where "split_str CHR ''.'' (pre @ CHR ''.'' # e) = ys @ [e]" by blast
    with n show ?thesis by (simp add: pop_snoc)
  next
    assume "name = e"
    with assms(2) show ?thesis by (simp add: split_str_no_sep)
  qed
  then show ?thesis by (simp add: extension_def)
qed

lemma name_has_extension_text:
  "\<exists>pre e. (name = pre @ CHR ''.'' # e \<or> name = e) \<and> CHR ''.'' \<notin> set e"
proof (induction name)
  case Nil
  then show ?case by simp
next
  case (Cons c name)
  then obtain pre e where h: "name = pre @ CHR ''.'' # e \<or> name = e" "CHR ''.'' \<notin> set e"
    by blast
  show ?case
  proof (cases "name = pre @ CHR ''.'' # e")
    case True
    then have "c # name = (c # pre) @ CHR ''.'' # e" by simp
    with h(2) show ?thesis by blast
  next
    case False
    with h have ne: "name = e" by blast
    show ?thesis
    proof (cases "c = CHR ''.''")
      case True
      with ne have "c # name = [] @ CHR ''.'' # e" by simp
      with h(2) show ?thesis by blast
    next
      case False
      with ne h(2) have "CHR ''.'' \<notin> set (c # name)" by auto
      then show ?thesis by blast
    qed
  qed
qed

text \<open>
  Claim C4, as stated, at the file name \<open>png\<close>, the last segment of the URI
  \<open>content://media/png\<close>: the name has no dot, hence no extension, and the claim gives
  \<open>image/jpeg\<close>; the code gives \<open>image/png\<close>, because \<^verbatim>\<open>split('.').pop()\<close> of a
  name without a dot is the whole name.
\<close>

theorem mimeType_counterexample:
  "CHR ''.'' \<notin> set ''png'' \<and> fileName ''upload.jpg'' ''content://media/png'' = ''png''
   \<and> mimeType ''png'' = ''image/png'' \<and> ''image/png'' \<noteq> ''image/jpeg''"
  by (simp add: mimeType_def extension_def toLowerCase_def toLowerCase_char_def fileName_def)

text \<open>
  Claim C4, amended: let \<open>e\<close> be the text after the last dot of the file name, or the
  whole file name when it has no dot (every name is of one of the two shapes, by
  \<open>name_has_extension_text\<close>). The MIME type is \<open>image/png\<close> when \<open>e\<close> in lower case
  is \<open>png\<close>, \<open>image/heic\<close> when it is \<open>heic\<close>, \<open>image/webp\<close> when it is \<open>webp\<close>, and
  \<open>image/jpeg\<close> otherwise. Both versions compute it in this way.
\<close>

theorem mimeType_by_extension:
  assumes "name = pre @ CHR ''.'' # e \<or> name = e" and "CHR ''.'' \<notin> set e"
  shows "mimeType name =
           (if toLowerCase e = ''png'' then ''image/png''
            else if toLowerCase e = ''heic'' then ''image/heic''
            else if toLowerCase e = ''webp'' then ''image/webp''
            else ''image/jpeg'')"
  using extension_after_last_dot [OF assms] by (simp add: mimeType_def)

theorem mimeType_by_extension_witness:
  "mimeType ''IMG_0042.edit.HEIC'' = ''image/heic'' \<and> mimeType ''photo.PNG'' = ''image/png''
   \<and> mimeType ''a.webp'' = ''image/webp'' \<and> mimeType ''scan.jpg'' = ''image/jpeg''
   \<and> mimeType ''README'' = ''image/jpeg'' \<and> mimeType ''webp'' = ''image/webp''"
proof -
  have d: "CHR ''.'' \<notin> set ''HEIC''" "CHR ''.'' \<notin> set ''PNG''" "CHR ''.'' \<notin> set ''webp''"
    "CHR ''.'' \<notin> set ''jpg''" "CHR ''.'' \<notin> set ''README''"
    by simp_all
  show ?thesis
    using mimeType_by_extension [of "''IMG_0042.edit.HEIC''" "''IMG_0042.edit''" "''HEIC''", OF _ d(1)]
      mimeType_by_extension [of "''photo.PNG''" "''photo''" "''PNG''", OF _ d(2)]
      mimeType_by_extension [of "''a.webp''" "''a''" "''webp''", OF _ d(3)]
      mimeType_by_extension [of "''scan.jpg''" "''scan''" "''jpg''", OF _ d(4)]
      mimeType_by_extension [of "''README''" "[]" "''README''", OF _ d(5)]
      mimeType_by_extension [of "''webp''" "[]" "''webp''", OF _ d(3)]
    by (simp add: toLowerCase_def toLowerCase_char_def)
qed

subsection \<open>Label\<close>

text \<open>
  Claim C5 at the 2xx body \<^verbatim>\<open>{"predicted_class": 5}\<close>: \<^verbatim>\<open>mockModelInference\<close>
  returns the number 5 as the label, where the claim (and the type \<^verbatim>\<open>Prediction\<close>,
  and the \<^verbatim>\<open>typeof\<close> test of \<^verbatim>\<open>classifyImageViaApi\<close>) ask for the string
  \<open>Unknown\<close>.
\<close>

theorem mock_label_not_a_string:
  "ok numeric_class_response
   \<and> mockModelInference (\<lambda>_. Resolved numeric_class_response) ''file:///tmp/dog.png''
       = Inr \<lparr>label = JNum 5, confidence = 0\<rparr>"
  by (simp add: mockModelInference_def numeric_class_response_def ok_def percent_def)

text \<open>
  Claim C6, as stated, at its own body: the version that divides the percentage by 100
  is \<^verbatim>\<open>classifyImageViaApi\<close>, and it reads the label from the \<open>label\<close> member only,
  so its result has the confidence 0.425 but the label \<open>Unknown\<close>, not \<open>Cat\<close>.
\<close>

theorem cat_label_counterexample:
  "ok cat_response
   \<and> classifyImageViaApi (\<lambda>_. Resolved cat_response) ''file:///tmp/cat.png''
       = Inr \<lparr>label = JStr ''Unknown'', confidence = 0.425\<rparr>
   \<and> JStr ''Unknown'' \<noteq> (JStr ''Cat'' :: rat json)"
  by (simp add: classifyImageViaApi_def cat_response_def cat_body_def ok_def percent_def)

text \<open>
  Claim C6, amended: for a 2xx response with the body
  \<^verbatim>\<open>{"predicted_class":"Cat","confidence_percent":42.5}\<close>, \<^verbatim>\<open>classifyImageViaApi\<close>
  returns the label \<open>Unknown\<close> with the confidence 0.425, and \<^verbatim>\<open>mockModelInference\<close>
  returns the label \<open>Cat\<close> with the confidence 42.5.
\<close>

theorem cat_response_results:
  fixes fetch :: "request \<Rightarrow> rat fetch_outcome"
  assumes "ok r" and "body_json r = Inr cat_body"
  shows "(fetch (apiRequest uri) = Resolved r \<longrightarrow>
            classifyImageViaApi fetch uri = Inr \<lparr>label = JStr ''Unknown'', confidence = 0.425\<rparr>)
       \<and> (fetch (mockRequest uri) = Resolved r \<longrightarrow>
            mockModelInference fetch uri = Inr \<lparr>label = JStr ''Cat'', confidence = 42.5\<rparr>)"
  using assms
  by (simp add: classifyImageViaApi_def mockModelInference_def cat_body_def percent_def)

theorem cat_response_results_witness:
  "ok cat_response \<and> body_json cat_response = Inr cat_body
   \<and> classifyImageViaApi (\<lambda>_. Resolved cat_response) ''file:///tmp/cat.png''
       = Inr \<lparr>label = JStr ''Unknown'', confidence = 0.425\<rparr>
   \<and> mockModelInference (\<lambda>_. Resolved cat_response) ''file:///tmp/cat.png''
       = Inr \<lparr>label = JStr ''Cat'', confidence = 42.5\<rparr>"
proof -
  have h1: "ok cat_response" by (simp add: cat_response_def ok_def)
  have h2: "body_json cat_response = Inr cat_body" by (simp add: cat_response_def)
  show ?thesis
    using h1 h2 cat_response_results [OF h1 h2, of "\<lambda>_. Resolved cat_response" "''file:///tmp/cat.png''"]
    by simp
qed

subsection \<open>Bodies without the expected members\<close>

text \<open>
  Claim C7, as stated, at the 2xx body \<^verbatim>\<open>null\<close>: it has none of the four members,
  and both versions fail with a \<open>TypeError\<close> instead of returning a prediction.
\<close>

theorem missing_fields_counterexample:
  "ok null_response \<and> body_json null_response = Inr JNull
   \<and> json_field (JNull :: rat json) ''label'' = None
   \<and> json_field (JNull :: rat json) ''predicted_class'' = None
   \<and> json_field (JNull :: rat json) ''confidence'' = None
   \<and> json_field (JNull :: rat json) ''confidence_percent'' = None
   \<and> classifyImageViaApi (\<lambda>_. Resolved null_response) ''file:///tmp/dog.png'' = Inl TypeError
   \<and> mockModelInference (\<lambda>_. Resolved null_response) ''file:///tmp/dog.png'' = Inl TypeError"
  by (simp add: classifyImageViaApi_def mockModelInference_def percent_def null_response_def ok_def)

text \<open>
  Claim C7, amended: for every 2xx response whose parsed body is not \<^verbatim>\<open>null\<close> and
  has none of the members \<open>label\<close>, \<open>predicted_class\<close>, \<open>confidence\<close> and
  \<open>confidence_percent\<close>, both versions return the prediction with the label \<open>Unknown\<close>
  and the confidence 0. The number type is a field here, where 0 divided by 100 is 0, as
  it is in floating point.
\<close>

theorem missing_fields_default:
  fixes fetch :: "request \<Rightarrow> ('n::field) fetch_outcome"
  assumes "ok r" and "body_json r = Inr data" and "data \<noteq> JNull"
    and "json_field data ''label'' = None" and "json_field data ''predicted_class'' = None"
    and "json_field data ''confidence'' = None" and "json_field data ''confidence_percent'' = None"
  shows "(fetch (apiRequest uri) = Resolved r \<longrightarrow>
            classifyImageViaApi fetch uri = Inr \<lparr>label = JStr ''Unknown'', confidence = 0\<rparr>)
       \<and> (fetch (mockRequest uri) = Resolved r \<longrightarrow>
            mockModelInference fetch uri = Inr \<lparr>label = JStr ''Unknown'', confidence = 0\<rparr>)"
  using assms by (simp add: classifyImageViaApi_ok mockModelInference_ok spec_percent_def)

theorem missing_fields_default_witness:
  "ok other_fields_response
   \<and> classifyImageViaApi (\<lambda>_. Resolved other_fields_response) ''file:///tmp/dog.png''
       = Inr \<lparr>label = JStr ''Unknown'', confidence = 0\<rparr>
   \<and> mockModelInference (\<lambda>_. Resolved other_fields_response) ''file:///tmp/dog.png''
       = Inr \<lparr>label = JStr ''Unknown'', confidence = 0\<rparr>"
proof -
  let ?d = "JObj [(''category'', JStr ''Dog''), (''score'', JNum (0.5::rat))]"
  have h: "ok other_fields_response" "body_json other_fields_response = Inr ?d" "?d \<noteq> JNull"
    "json_field ?d ''label'' = None" "json_field ?d ''predicted_class'' = None"
    "json_field ?d ''confidence'' = None" "json_field ?d ''confidence_percent'' = None"
    by (simp_all add: other_fields_response_def ok_def)
  show ?thesis
    using h(1) missing_fields_default [OF h, of "\<lambda>_. Resolved other_fields_response" "''file:///tmp/dog.png''"]
    by simp
qed

section \<open>Properties of the screens\<close>

lemma in_flight_inv_dispatch: "in_flight_inv c \<Longrightarrow> in_flight_inv (dispatch e c)"
proof (cases c)
  case (Pair s pending)
  assume "in_flight_inv c"
  with Pair show ?thesis
    by (cases e)
      (auto simp: in_flight_inv_def handleOpenCamera_def handleCapturePhoto_def
        handlePickImage_def handleClassify_begin_def handleClassify_settle_def
        classifyDisabled_def hasImage_def truthy_def
        split: option.splits list.splits sum.splits if_splits)
qed

lemma run_snoc: "run (es @ [e]) = dispatch e (run es)"
  by (simp add: run_def)

lemma in_flight_inv_run: "in_flight_inv (run es)"
proof (induction es rule: rev_induct)
  case Nil
  show ?case by (simp add: run_def in_flight_inv_def initial_def)
next
  case (snoc e es)
  then show ?case by (simp add: run_snoc in_flight_inv_dispatch)
qed

lemma press_ignored: "isClassifying (fst c) \<Longrightarrow> dispatch PressClassify c = c"
  by (cases c) (simp add: classifyDisabled_def)

lemma flag_kept: "isClassifying (fst c) \<Longrightarrow> \<not> is_Settle e \<Longrightarrow> isClassifying (fst (dispatch e c))"
  by (cases c; cases e)
    (auto simp: is_Settle_def handleOpenCamera_def handleCapturePhoto_def handlePickImage_def
      classifyDisabled_def split: option.splits)

lemma settle_clears:
  "in_flight_inv c \<Longrightarrow> isClassifying (fst c) \<Longrightarrow>
     \<not> isClassifying (fst (dispatch (Settle outcome) c)) \<and> snd (dispatch (Settle outcome) c) = []"
  by (cases c)
    (auto simp: in_flight_inv_def handleClassify_settle_def split: list.splits sum.splits)

text \<open>
  Claim C9, on the first screen, for every sequence of events from the initial state:
  at most one request is under way, and one is under way exactly when the flag is set;
  while the flag is set a press on Classify changes nothing; every event other than the
  request settling leaves the flag set; and when the request settles, with a prediction
  or with an error, the flag is cleared and no request is left.
\<close>

theorem one_submission_in_flight:
  fixes es :: "('n::{zero,times,inverse,numeral}) event list"
  shows "length (snd (run es)) \<le> 1
       \<and> (isClassifying (fst (run es)) \<longleftrightarrow> snd (run es) \<noteq> [])
       \<and> (isClassifying (fst (run es)) \<longrightarrow> dispatch PressClassify (run es) = run es)
       \<and> (isClassifying (fst (run es)) \<and> \<not> is_Settle e \<longrightarrow>
             isClassifying (fst (dispatch e (run es))))
       \<and> (isClassifying (fst (run es)) \<longrightarrow>
             \<not> isClassifying (fst (dispatch (Settle outcome) (run es)))
             \<and> snd (dispatch (Settle outcome) (run es)) = [])"
proof -
  have inv: "in_flight_inv (run es)" by (rule in_flight_inv_run)
  then have "length (snd (run es)) \<le> 1"
    and "isClassifying (fst (run es)) \<longleftrightarrow> snd (run es) \<noteq> []"
    by (auto simp: in_flight_inv_def split: if_splits)
  with inv show ?thesis
    using press_ignored [of "run es"] flag_kept [of "run es" e]
      settle_clears [of "run es" outcome]
    by blast
qed

theorem one_submission_in_flight_witness:
  "run [PickImage (Some ''file:///tmp/dog.png''), PressClassify :: rat event]
     = (\<lparr>imageUri = Some ''file:///tmp/dog.png'', prediction = None, isClassifying = True,
         cameraVisible = False, resultModalVisible = False\<rparr>, [''file:///tmp/dog.png''])
   \<and> run [PickImage (Some ''file:///tmp/dog.png''), PressClassify, PressClassify :: rat event]
     = run [PickImage (Some ''file:///tmp/dog.png''), PressClassify]
   \<and> \<not> is_Settle (CloseResult :: rat event)
   \<and> isClassifying (fst (run [PickImage (Some ''file:///tmp/dog.png''), PressClassify,
         CloseResult :: rat event]))
   \<and> run [PickImage (Some ''file:///tmp/dog.png''), PressClassify, Settle (Resolved dog_response)]
     = (\<lparr>imageUri = Some ''file:///tmp/dog.png'',
         prediction = Some \<lparr>label = JStr ''Dog'', confidence = 0.5\<rparr>, isClassifying = False,
         cameraVisible = False, resultModalVisible = True\<rparr>, [])"
  using one_submission_in_flight
    [of "[PickImage (Some ''file:///tmp/dog.png''), PressClassify :: rat event]"
        CloseResult "Resolved dog_response"]
  by (simp add: run_def initial_def handlePickImage_def classifyDisabled_def hasImage_def
      truthy_def handleClassify_begin_def handleClassify_settle_def is_Settle_def
      classifyImageViaApi_def dog_response_def ok_def percent_def)

text \<open>
  Claim C10. On both screens, a call of \<^verbatim>\<open>handleClassify\<close> from a state with an
  image ends with the flag cleared, whatever the pipeline returned or threw; the second
  half of the call alone already clears it in every state. A call from a state without
  an image returns at once and leaves the flag as it was, hence cleared if it was.
\<close>

theorem classifying_flag_reset:
  fixes fetch :: "request \<Rightarrow> ('n::{zero,times,inverse,numeral}) fetch_outcome"
  shows "(hasImage s \<or> \<not> isClassifying s \<longrightarrow> \<not> isClassifying (handleClassify fetch s))
       \<and> (truthy (selectedImageUri s2) \<or> \<not> isClassifying2 s2 \<longrightarrow>
            \<not> isClassifying2 (snd (handleClassify2 fetch s2)))
       \<and> \<not> isClassifying (handleClassify_settle result s)
       \<and> \<not> isClassifying2 (snd (handleClassify2_settle result s2))"
  by (auto simp: handleClassify_def handleClassify2_def handleClassify_begin_def
      handleClassify2_begin_def handleClassify_settle_def handleClassify2_settle_def
      hasImage_def truthy_def split: option.splits sum.splits)

theorem classifying_flag_reset_witness:
  "hasImage dog_screen \<and> truthy (selectedImageUri dog_screen2)
   \<and> handleClassify (\<lambda>_. Resolved dog_response) dog_screen
       = dog_screen\<lparr>prediction := Some \<lparr>label = JStr ''Dog'', confidence = 0.5\<rparr>,
                      resultModalVisible := True\<rparr>
   \<and> handleClassify (\<lambda>_. Resolved unavailable_response) dog_screen = dog_screen
   \<and> handleClassify2 (\<lambda>_. Resolved dog_response) dog_screen2
       = (None, dog_screen2\<lparr>prediction2 := Some \<lparr>label = JStr ''Dog'', confidence = 50\<rparr>\<rparr>)
   \<and> handleClassify2 (\<lambda>_. Rejected NetworkFailure) dog_screen2
       = (Some NetworkFailure, dog_screen2)
   \<and> \<not> isClassifying dog_screen \<and> \<not> isClassifying2 dog_screen2"
  using classifying_flag_reset
      [of dog_screen "\<lambda>_. Resolved dog_response" dog_screen2 "Inl TypeError"]
    classifying_flag_reset
      [of dog_screen "\<lambda>_. Resolved unavailable_response" dog_screen2 "Inl TypeError"]
    classifying_flag_reset
      [of dog_screen "\<lambda>_. Rejected NetworkFailure" dog_screen2 "Inl TypeError"]
  by (simp add: dog_screen_def dog_screen2_def initial_def hasImage_def truthy_def
      handleClassify_def handleClassify2_def handleClassify_begin_def handleClassify2_begin_def
      handleClassify_settle_def handleClassify2_settle_def classifyImageViaApi_def
      mockModelInference_def dog_response_def unavailable_response_def ok_def percent_def)

end
